theory Spec2Isabelle
  imports Complex_Main "HOL-Library.AList" "HOL-Library.Sublist"
begin

section \<open>Python values shared by the modules\<close>

text \<open>
  The scanner is a Python program. Its floats are modelled as \<^typ>\<open>real\<close> (no NaN, no
  rounding), its unbounded integers as \<^typ>\<open>int\<close>, its strings as byte strings holding the
  UTF-8 encoding of the source text, and every exception that a call can raise as a value
  of \<open>py_exn\<close> on the left of a sum. Only subclasses of Python's \<open>Exception\<close> are
  modelled, so \<open>except Exception\<close> catches every \<open>py_exn\<close>.
\<close>

datatype py_exn =
  TypeError | ValueError | KeyError | AttributeError | JSONDecodeError
  | SSLError | HTTPError | ConnectionError | Timeout | OSError

definition digit_char :: "nat \<Rightarrow> char" where
  "digit_char d = char_of (48 + d)"

fun str_nat :: "nat \<Rightarrow> string" where
  "str_nat n = (if n < 10 then [digit_char n] else str_nat (n div 10) @ [digit_char (n mod 10)])"

declare str_nat.simps [simp del]

definition str_int :: "int \<Rightarrow> string" where
  \<comment> \<open>Python's \<open>str(i)\<close> for an int\<close>
  "str_int i = (if i < 0 then CHR ''-'' # str_nat (nat (- i)) else str_nat (nat i))"

definition str_bool :: "bool \<Rightarrow> string" where
  \<comment> \<open>Python's \<open>str(b)\<close>, also what an f-string prints for \<open>numpy.bool_\<close>\<close>
  "str_bool b = (if b then ''True'' else ''False'')"

section \<open>modules/strategy_router.py: the technical strategy\<close>

text \<open>
  A price history is the DataFrame returned by \<open>get_price_with_ma\<close>: one row per trading
  day, ordered by date. \<open>vol_columns\<close> records the test
  \<open>"Volume_avg" in df.columns and "volume" in df.columns\<close> of the source; the columns
  \<open>close\<close>, \<open>MA5\<close> and \<open>MA20\<close> are read unconditionally by the source and are fields
  of every row.
\<close>

record row =
  close :: real
  volume :: real
  MA5 :: real
  MA20 :: real
  Volume_avg :: real

record price_df =
  rows :: "row list"
  vol_columns :: bool

record advice =
  buy_zone :: "real \<times> real"
  stop :: real
  tp1 :: real
  tp2 :: real

text \<open>
  A strategy result is the dict the strategies return. A missing \<open>advice\<close> key and an
  \<open>advice\<close> of \<open>None\<close> are both \<open>None\<close> here.
\<close>

record strategy_result =
  strategy :: string
  triggered :: bool
  reason :: string
  advice :: "advice option"

definition txt_technical :: string where
  \<comment> \<open>the strategy name, UTF-8 bytes of the source literal\<close>
  "txt_technical =
     [CHR 0xE6, CHR 0x8A, CHR 0x80, CHR 0xE8, CHR 0xA1, CHR 0x93, CHR 0xE9, CHR 0x9D,
      CHR 0xA2]"

definition txt_insufficient :: string where
  \<comment> \<open>the insufficient-data reason, UTF-8 bytes of the source literal\<close>
  "txt_insufficient =
     [CHR 0xE8, CHR 0xB3, CHR 0x87, CHR 0xE6, CHR 0x96, CHR 0x99, CHR 0xE4, CHR 0xB8,
      CHR 0x8D, CHR 0xE8, CHR 0xB6, CHR 0xB3]"

definition txt_triggered_prefix :: string where
  \<comment> \<open>opening of the reason of a triggered result\<close>
  "txt_triggered_prefix =
     [CHR 0xE8, CHR 0xA7, CHR 0xB8, CHR 0xE7, CHR 0x99, CHR 0xBC, CHR 0xEF, CHR 0xBC,
      CHR 0x88, CHR 0xE6, CHR 0xBB, CHR 0xBF, CHR 0xE8, CHR 0xB6, CHR 0xB3, CHR 0x20]"

definition txt_not_triggered_prefix :: string where
  \<comment> \<open>opening of the reason of a result that did not trigger\<close>
  "txt_not_triggered_prefix =
     [CHR 0xE6, CHR 0x9C, CHR 0xAA, CHR 0xE8, CHR 0xA7, CHR 0xB8, CHR 0xE7, CHR 0x99,
      CHR 0xBC, CHR 0xEF, CHR 0xBC, CHR 0x88, CHR 0xE5, CHR 0x83, CHR 0x85, CHR 0x20]"

definition txt_golden :: string where
  \<comment> \<open>label of the moving-average crossover\<close>
  "txt_golden =
     [CHR 0x2F, CHR 0x33, CHR 0xEF, CHR 0xBC, CHR 0x89, CHR 0xEF, CHR 0xBC, CHR 0x9A,
      CHR 0xE9, CHR 0x87, CHR 0x91, CHR 0xE5, CHR 0x8F, CHR 0x89, CHR 0x3D]"

definition txt_volume :: string where
  \<comment> \<open>label of the volume condition\<close>
  "txt_volume =
     [CHR 0xE3, CHR 0x80, CHR 0x81, CHR 0xE9, CHR 0x87, CHR 0x8F, CHR 0xE8, CHR 0x83,
      CHR 0xBD, CHR 0x3D]"

definition txt_breakout :: string where
  \<comment> \<open>label of the breakout condition\<close>
  "txt_breakout =
     [CHR 0xE3, CHR 0x80, CHR 0x81, CHR 0xE7, CHR 0xAA, CHR 0x81, CHR 0xE7, CHR 0xA0,
      CHR 0xB4, CHR 0xE9, CHR 0xAB, CHR 0x98, CHR 0xE9, CHR 0xBB, CHR 0x9E, CHR 0x3D]"

definition iloc_m21_m1 :: "'a list \<Rightarrow> 'a list" where
  \<comment> \<open>\<open>s.iloc[-21:-1]\<close>: a start before the first element is clamped to it\<close>
  "iloc_m21_m1 xs = butlast (drop (length xs - 21) xs)"

definition iloc_m61_m1 :: "'a list \<Rightarrow> 'a list" where
  \<comment> \<open>\<open>s.iloc[-61:-1]\<close>\<close>
  "iloc_m61_m1 xs = butlast (drop (length xs - 61) xs)"

definition series_max :: "real list \<Rightarrow> real" where
  \<comment> \<open>\<open>s.max()\<close> of a series without NaN; only called on non-empty series\<close>
  "series_max xs = Max (set xs)"

definition build_advice :: "price_df \<Rightarrow> advice option" where
  \<comment> \<open>\<open>_build_advice\<close>\<close>
  "build_advice df =
     (if length (rows df) < 60 then None
      else
        let today = last (rows df);
            ma5 = MA5 today;
            ma20 = MA20 today;
            lo = min ma5 ma20;
            hi = max ma5 ma20;
            past20_high = series_max (iloc_m21_m1 (map close (rows df)));
            past60_high = series_max (iloc_m61_m1 (map close (rows df)))
        in Some \<lparr>buy_zone = (lo, hi), stop = max 0 (lo * 98 / 100),
                 tp1 = past20_high, tp2 = past60_high\<rparr>)"

definition bool_count :: "bool list \<Rightarrow> nat" where
  \<comment> \<open>\<open>sum\<close> of a list of booleans\<close>
  "bool_count bs = length (filter (\<lambda>b. b) bs)"

definition strategy_technical :: "price_df option \<Rightarrow> strategy_result" where
  "strategy_technical d =
     (case d of
        None \<Rightarrow>
          \<lparr>strategy = txt_technical, triggered = False, reason = txt_insufficient,
           advice = None\<rparr>
      | Some df \<Rightarrow>
          if length (rows df) < 21 then
            \<lparr>strategy = txt_technical, triggered = False, reason = txt_insufficient,
             advice = None\<rparr>
          else
            let today = last (rows df);
                yesterday = rows df ! (length (rows df) - 2);
                golden_cross = (MA5 yesterday < MA20 yesterday \<and> MA5 today > MA20 today);
                vol_ok = (if vol_columns df
                          then volume today > Volume_avg today * (18 / 10) else True);
                past20_high = series_max (iloc_m21_m1 (map close (rows df)));
                breakout_high = (close today > past20_high);
                ok_cnt = bool_count [golden_cross, vol_ok, breakout_high];
                trig = (golden_cross \<and> vol_ok \<and> breakout_high);
                why = (if trig then txt_triggered_prefix else txt_not_triggered_prefix)
                      @ str_nat ok_cnt @ txt_golden @ str_bool golden_cross
                      @ txt_volume @ str_bool vol_ok
                      @ txt_breakout @ str_bool breakout_high
            in \<lparr>strategy = txt_technical, triggered = trig, reason = why,
                advice = (if trig then build_advice df else None)\<rparr>)"

text \<open>
  The router calls the three strategies in turn. The fundamental and the news strategy are
  not modelled; their results are inputs. \<open>kwargs\<close> lists the keyword names the caller
  passed. The last call of the source is
  \<open>strategy_news(news_sentiments, pos_threshold=kwargs.get('pos_threshold', 0.80), **kwargs)\<close>:
  when \<open>kwargs\<close> itself holds \<open>pos_threshold\<close> the keyword is given twice and Python
  raises \<open>TypeError\<close> before \<open>strategy_news\<close> runs.
\<close>

definition run_all_strategies ::
  "price_df option \<Rightarrow> strategy_result \<Rightarrow> strategy_result \<Rightarrow> string list
    \<Rightarrow> py_exn + strategy_result list" where
  "run_all_strategies df fundamental news kwargs =
     (let technical = strategy_technical df
      in if ''pos_threshold'' \<in> set kwargs then Inl TypeError
         else Inr [technical, fundamental, news])"

section \<open>config.py\<close>

text \<open>
  Every value of \<open>config.py\<close> is read from the process environment, with a default, so the
  configuration is a parameter of the model. \<open>ENV_DISCORD_WEBHOOK\<close> is
  \<open>os.getenv("DISCORD_WEBHOOK")\<close>, which the notifier reads itself.
\<close>

record config =
  DISCORD_WEBHOOK :: string
  ENV_DISCORD_WEBHOOK :: "string option"
  MAX_SIGNAL_PER_STOCK :: int
  MAX_SIGNAL_TOTAL :: int
  DEDUP_WINDOW_SEC :: int

definition default_config :: config where
  \<comment> \<open>the defaults of \<open>config.py\<close>, with no webhook in the environment\<close>
  "default_config =
     \<lparr>DISCORD_WEBHOOK = [], ENV_DISCORD_WEBHOOK = None, MAX_SIGNAL_PER_STOCK = 20,
      MAX_SIGNAL_TOTAL = 200, DEDUP_WINDOW_SEC = 1200\<rparr>"

text \<open>
  Two library functions are not computed by the model and are parameters: SHA-256 (as a
  hexadecimal digest of the UTF-8 text) and the float format \<open>{price:.2f}\<close>.
\<close>

record pylib =
  sha256_hex :: "string \<Rightarrow> string"
  format_2f :: "real \<Rightarrow> string"

section \<open>The process state and the outcomes of the collaborators\<close>

datatype out_line =
  Message string
  | DiscordNotConfigured string
  | DiscordPushFailed nat
  | DiscordPushException py_exn
  | PipelineError string string py_exn

record signal_row =
  sig_ts :: string
  sig_stock_id :: string
  sig_stock_name :: string
  sig_strategy_name :: string
  sig_price :: real
  sig_trigger_count :: int
  sig_signal_type :: string
  sig_reason :: string

text \<open>
  \<open>sent_today\<close> is the dict of \<open>main.py\<close> and \<open>seen\<close> the dict \<open>_seen\<close> of the
  notifier, both as association lists in insertion order. \<open>terminal\<close> holds what was
  printed, \<open>delivered\<close> the webhook posts that the sink answered with 200 or 204 (webhook
  and content), \<open>signals\<close> the rows that \<open>log_signal\<close> inserted.
\<close>

record world =
  sent_today :: "(string \<times> int) list"
  seen :: "(string \<times> real) list"
  terminal :: "out_line list"
  delivered :: "(string \<times> string) list"
  signals :: "signal_row list"

definition initial_world :: world where
  "initial_world = \<lparr>sent_today = [], seen = [], terminal = [], delivered = [], signals = []\<rparr>"

datatype post_outcome = PostRaises py_exn | PostStatus nat

record fund_row =
  Foreign_Investor :: real
  Investment_Trust :: real
  Dealer_self :: real

record news_item =
  title :: string
  sentiment :: string
  sentiment_score :: real

text \<open>
  What the collaborators of one evaluation return or raise: the clock read by the
  notifier (\<open>time.time()\<close>), the answer of \<open>requests.post\<close>, the price history
  (\<open>get_price_with_ma\<close>), the fund flow (\<open>get_fund_flow\<close>), the linked news
  (\<open>link_news_to_stock\<close>, the only use of the arguments \<open>news_all\<close> and \<open>aliases_map\<close>),
  the ranked news (\<open>rank_news\<close>), the call
  \<open>run_all_strategies(df, fund_data, news_ranked, pos_threshold=0.80)\<close>, and
  \<open>log_signal\<close> (\<open>None\<close> when it returns) with the timestamp it writes. \<open>print\<close> is
  taken not to raise.
\<close>

record env =
  clock :: real
  post_result :: post_outcome
  price_result :: "py_exn + price_df option"
  fund_result :: "py_exn + fund_row list option"
  linked_result :: "py_exn + news_item list"
  ranked_result :: "py_exn + news_item list"
  router_result :: "py_exn + strategy_result list"
  log_result :: "py_exn option"
  log_time :: string

section \<open>modules/notifier.py\<close>

definition py_or :: "string option \<Rightarrow> string option \<Rightarrow> string option" where
  \<comment> \<open>\<open>a or b\<close> on values that are \<open>None\<close> or a string\<close>
  "py_or a b = (case a of None \<Rightarrow> b | Some s \<Rightarrow> if s = [] then b else a)"

definition deliver :: "config \<Rightarrow> env \<Rightarrow> string \<Rightarrow> string option \<Rightarrow> world \<Rightarrow> world" where
  \<comment> \<open>\<open>send_discord_message\<close> after the dedup gate: choose the webhook and post\<close>
  "deliver cfg e message webhook_url w =
     (case py_or (py_or webhook_url (Some (DISCORD_WEBHOOK cfg))) (ENV_DISCORD_WEBHOOK cfg) of
        None \<Rightarrow> w\<lparr>terminal := terminal w @ [DiscordNotConfigured message]\<rparr>
      | Some webhook \<Rightarrow>
          if webhook = [] then w\<lparr>terminal := terminal w @ [DiscordNotConfigured message]\<rparr>
          else
            (case post_result e of
               PostRaises x \<Rightarrow> w\<lparr>terminal := terminal w @ [DiscordPushException x]\<rparr>
             | PostStatus code \<Rightarrow>
                 if code \<noteq> 200 \<and> code \<noteq> 204
                 then w\<lparr>terminal := terminal w @ [DiscordPushFailed code]\<rparr>
                 else w\<lparr>delivered := delivered w @ [(webhook, message)]\<rparr>))"

definition last_sent :: "(string \<times> real) list \<Rightarrow> string \<Rightarrow> real" where
  \<comment> \<open>\<open>_seen.get(h, 0.0)\<close>\<close>
  "last_sent tbl h = (case map_of tbl h of None \<Rightarrow> 0 | Some t \<Rightarrow> t)"

definition send_discord_message ::
  "pylib \<Rightarrow> config \<Rightarrow> env \<Rightarrow> string \<Rightarrow> string option \<Rightarrow> world \<Rightarrow> world" where
  "send_discord_message lib cfg e message webhook_url w =
     (let h = sha256_hex lib message;
          now = clock e;
          last = last_sent (seen w) h
      in if now - last < real_of_int (DEDUP_WINDOW_SEC cfg) then w
         else deliver cfg e message webhook_url (w\<lparr>seen := AList.update h now (seen w)\<rparr>))"

section \<open>main.py: the evaluation pipeline\<close>

definition txt_sep_names :: string where
  \<comment> \<open>separator of the strategy names\<close>
  "txt_sep_names =
     [CHR 0xE3, CHR 0x80, CHR 0x81]"

definition txt_sep_reasons :: string where
  \<comment> \<open>separator of the reasons\<close>
  "txt_sep_reasons =
     [CHR 0xEF, CHR 0xBC, CHR 0x9B]"

definition txt_msg_open :: string where
  \<comment> \<open>opening of the alert\<close>
  "txt_msg_open =
     [CHR 0xF0, CHR 0x9F, CHR 0x93, CHR 0x88, CHR 0xE3, CHR 0x80, CHR 0x90]"

definition txt_msg_entry :: string where
  \<comment> \<open>after the strategy names\<close>
  "txt_msg_entry =
     [CHR 0x20, CHR 0xE9, CHR 0x80, CHR 0xB2, CHR 0xE5, CHR 0xA0, CHR 0xB4, CHR 0xE3,
      CHR 0x80, CHR 0x91]"

definition txt_msg_nth :: string where
  \<comment> \<open>before the running count\<close>
  "txt_msg_nth =
     [CHR 0x20, CHR 0xE7, CHR 0xAC, CHR 0xAC, CHR 0x20]"

definition txt_msg_times :: string where
  \<comment> \<open>after the per-stock cap\<close>
  "txt_msg_times =
     [CHR 0x20, CHR 0xE6, CHR 0xAC, CHR 0xA1, CHR 0x0A]"

definition txt_msg_price :: string where
  \<comment> \<open>before the price\<close>
  "txt_msg_price =
     [CHR 0xE5, CHR 0x83, CHR 0xB9, CHR 0xE6, CHR 0xA0, CHR 0xBC, CHR 0xE7, CHR 0xB4,
      CHR 0x84, CHR 0xEF, CHR 0xBC, CHR 0x9A]"

definition txt_msg_yuan :: string where
  \<comment> \<open>after the price\<close>
  "txt_msg_yuan =
     [CHR 0x20, CHR 0xE5, CHR 0x85, CHR 0x83, CHR 0x0A]"

definition txt_msg_explain :: string where
  \<comment> \<open>before the reasons\<close>
  "txt_msg_explain =
     [CHR 0xE8, CHR 0xAA, CHR 0xAA, CHR 0xE6, CHR 0x98, CHR 0x8E, CHR 0xEF, CHR 0xBC,
      CHR 0x9A]"

definition txt_msg_default_reason :: string where
  \<comment> \<open>used when no strategy gave a reason\<close>
  "txt_msg_default_reason =
     [CHR 0xE8, CHR 0xA7, CHR 0xB8, CHR 0xE7, CHR 0x99, CHR 0xBC, CHR 0xE6, CHR 0xA2,
      CHR 0x9D, CHR 0xE4, CHR 0xBB, CHR 0xB6, CHR 0xE6, CHR 0x88, CHR 0x90, CHR 0xE7,
      CHR 0xAB, CHR 0x8B]"

definition txt_swing :: string where
  \<comment> \<open>the signal type written to the log\<close>
  "txt_swing =
     [CHR 0xE6, CHR 0xB3, CHR 0xA2, CHR 0xE6, CHR 0xAE, CHR 0xB5]"

definition safe_send :: "pylib \<Rightarrow> config \<Rightarrow> env \<Rightarrow> string \<Rightarrow> world \<Rightarrow> world" where
  "safe_send lib cfg e msg w =
     (if msg = [] then w
      else
        let w1 = w\<lparr>terminal := terminal w @ [Message msg]\<rparr>
        in if DISCORD_WEBHOOK cfg \<noteq> []
           then send_discord_message lib cfg e msg (Some (DISCORD_WEBHOOK cfg)) w1
           else w1)"

definition sent_count :: "(string \<times> int) list \<Rightarrow> string \<Rightarrow> int" where
  \<comment> \<open>\<open>sent_today.get(stock_id, 0)\<close>\<close>
  "sent_count d k = (case map_of d k of None \<Rightarrow> 0 | Some c \<Rightarrow> c)"

definition sent_total :: "(string \<times> int) list \<Rightarrow> int" where
  \<comment> \<open>\<open>sum(sent_today.values())\<close>\<close>
  "sent_total d = sum_list (map snd d)"

definition history_abort :: "price_df option \<Rightarrow> bool" where
  \<comment> \<open>\<open>df is None or len(df) < 20\<close>\<close>
  "history_abort d = (case d of None \<Rightarrow> True | Some df \<Rightarrow> length (rows df) < 20)"

definition dedup_first :: "'a list \<Rightarrow> 'a list" where
  \<comment> \<open>\<open>dict.fromkeys(xs)\<close>: the first occurrence of each element, in order\<close>
  "dedup_first xs = rev (remdups (rev xs))"

fun join :: "string \<Rightarrow> string list \<Rightarrow> string" where
  "join sep [] = []"
| "join sep [x] = x"
| "join sep (x # y # ys) = x @ sep @ join sep (y # ys)"

definition compose_message ::
  "pylib \<Rightarrow> config \<Rightarrow> string \<Rightarrow> string \<Rightarrow> string \<Rightarrow> int \<Rightarrow> real \<Rightarrow> string \<Rightarrow> string" where
  \<comment> \<open>the f-string of step 5\<close>
  "compose_message lib cfg strategy_names stock_id stock_name count price reasons =
     txt_msg_open @ strategy_names @ txt_msg_entry @ stock_id @ '' '' @ stock_name
     @ txt_msg_nth @ str_int (count + 1) @ ''/'' @ str_int (MAX_SIGNAL_PER_STOCK cfg)
     @ txt_msg_times
     @ txt_msg_price @ format_2f lib price @ txt_msg_yuan
     @ txt_msg_explain @ (if reasons = [] then txt_msg_default_reason else reasons)"

definition pipeline_error :: "string \<Rightarrow> string \<Rightarrow> py_exn \<Rightarrow> world \<Rightarrow> world" where
  \<comment> \<open>the \<open>except Exception\<close> of \<open>process_stock\<close>: print and return\<close>
  "pipeline_error stock_id stock_name x w =
     w\<lparr>terminal := terminal w @ [PipelineError stock_id stock_name x]\<rparr>"

definition notify_and_record ::
  "pylib \<Rightarrow> config \<Rightarrow> env \<Rightarrow> string \<Rightarrow> string \<Rightarrow> int \<Rightarrow> price_df
    \<Rightarrow> strategy_result list \<Rightarrow> world \<Rightarrow> world" where
  \<comment> \<open>steps 5 and 6 of \<open>process_stock\<close>, for a non-empty list of triggered results\<close>
  "notify_and_record lib cfg e stock_id stock_name count df triggers w =
     (let strategy_names = join txt_sep_names (dedup_first (map strategy triggers));
          reasons = join txt_sep_reasons
                      (dedup_first (filter (\<lambda>r. r \<noteq> []) (map reason triggers)));
          price = close (last (rows df));
          message = compose_message lib cfg strategy_names stock_id stock_name count price
                      reasons;
          w1 = safe_send lib cfg e message w
      in case log_result e of
           Some x \<Rightarrow> pipeline_error stock_id stock_name x w1
         | None \<Rightarrow>
             w1\<lparr>signals := signals w1 @
                    [\<lparr>sig_ts = log_time e, sig_stock_id = stock_id,
                      sig_stock_name = stock_name, sig_strategy_name = strategy_names,
                      sig_price = price, sig_trigger_count = count + 1,
                      sig_signal_type = txt_swing, sig_reason = reasons\<rparr>],
                sent_today := AList.update stock_id (count + 1) (sent_today w1)\<rparr>)"

definition process_stock ::
  "pylib \<Rightarrow> config \<Rightarrow> env \<Rightarrow> string \<Rightarrow> string \<Rightarrow> world \<Rightarrow> world" where
  "process_stock lib cfg e stock_id stock_name w =
     (let count = sent_count (sent_today w) stock_id;
          total = sent_total (sent_today w)
      in if count \<ge> MAX_SIGNAL_PER_STOCK cfg \<or> total \<ge> MAX_SIGNAL_TOTAL cfg then w
         else
           (case price_result e of
              Inl x \<Rightarrow> pipeline_error stock_id stock_name x w
            | Inr d \<Rightarrow>
                if history_abort d then w
                else
                  (case fund_result e of
                     Inl x \<Rightarrow> pipeline_error stock_id stock_name x w
                   | Inr fund_data \<Rightarrow>
                  (case linked_result e of
                     Inl x \<Rightarrow> pipeline_error stock_id stock_name x w
                   | Inr news_for_stock \<Rightarrow>
                  (case (if news_for_stock \<noteq> [] then ranked_result e else Inr []) of
                     Inl x \<Rightarrow> pipeline_error stock_id stock_name x w
                   | Inr news_ranked \<Rightarrow>
                  (case router_result e of
                     Inl x \<Rightarrow> pipeline_error stock_id stock_name x w
                   | Inr strategies \<Rightarrow>
                       let triggers = filter triggered strategies
                       in if triggers = [] then w
                          else
                            (case d of
                               None \<Rightarrow> w
                             | Some df \<Rightarrow>
                                 notify_and_record lib cfg e stock_id stock_name count
                                   df triggers w)))))))"

definition run_calls ::
  "pylib \<Rightarrow> config \<Rightarrow> (env \<times> string \<times> string) list \<Rightarrow> world \<Rightarrow> world" where
  \<comment> \<open>the calls of \<open>process_stock\<close> of a process, one after the other: the coroutine has
     no \<open>await\<close>, so the calls that \<open>asyncio.gather\<close> starts never interleave\<close>
  "run_calls lib cfg calls w =
     foldl (\<lambda>w (e, stock_id, stock_name). process_stock lib cfg e stock_id stock_name w) w calls"

section \<open>modules/finmind_client.py\<close>

text \<open>
  The limiter holds the interval and the time of the last grant (\<open>_last\<close>). \<open>wait\<close> runs
  under the limiter's lock, so the calls of all threads are one sequence. A call reads
  the clock (\<open>now\<close>), sleeps when the last grant is too recent, and reads the clock again
  for the new grant; \<open>lag\<close> is the time that passes between the two readings beyond the
  sleep it asked for.
\<close>

record limiter =
  min_interval :: real
  last_grant :: real


definition sleep_for :: "limiter \<Rightarrow> real \<Rightarrow> real" where
  \<comment> \<open>the argument of \<open>time.sleep\<close>, 0 when \<open>wait\<close> does not sleep\<close>
  "sleep_for rl now =
     (let dt = now - last_grant rl
      in if dt < min_interval rl then min_interval rl - dt else 0)"

definition wait :: "limiter \<Rightarrow> real \<Rightarrow> real \<Rightarrow> limiter" where
  "wait rl now lag = rl\<lparr>last_grant := now + sleep_for rl now + lag\<rparr>"

fun grants :: "limiter \<Rightarrow> (real \<times> real) list \<Rightarrow> real list" where
  \<comment> \<open>the successive values of \<open>_last\<close> over a sequence of calls of \<open>wait\<close>\<close>
  "grants rl [] = []"
| "grants rl ((now, lag) # calls) =
     last_grant (wait rl now lag) # grants (wait rl now lag) calls"


text \<open>
  \<open>get_data\<close> builds its parameters, waits for the limiter and sends the request; the
  model starts at the outcome of the request. An HTTP call either raises or answers with
  a status and a body. The body is what
  \<open>r.json()\<close> and \<open>j.get("data", [])\<close> make of it: not JSON, JSON that is not an
  object, or an object with or without a \<open>data\<close> entry. The session's retry adapter works
  below this level: with \<open>raise_on_status=False\<close> an exhausted retry hands back the last
  response.
\<close>

datatype 'r json_body = NotJson | JsonNotObject | JsonObject "'r list option"

datatype 'r http_outcome = Raised py_exn | Response nat "'r json_body"

definition read_response :: "nat \<Rightarrow> 'r json_body \<Rightarrow> py_exn + 'r list" where
  \<comment> \<open>the four lines after each \<open>_sess.get\<close>: the 402 test, \<open>raise_for_status\<close>,
     \<open>r.json()\<close> and \<open>j.get("data", []) or []\<close>\<close>
  "read_response status body =
     (if status = 402 then Inr []
      else if 400 \<le> status \<and> status < 600 then Inl HTTPError
      else
        (case body of
           NotJson \<Rightarrow> Inl JSONDecodeError
         | JsonNotObject \<Rightarrow> Inl AttributeError
         | JsonObject None \<Rightarrow> Inr []
         | JsonObject (Some data) \<Rightarrow> Inr data))"

definition get_data :: "'r http_outcome \<Rightarrow> 'r http_outcome \<Rightarrow> py_exn + 'r list" where
  \<comment> \<open>\<open>first\<close> is the outcome of the verified request, \<open>second\<close> that of the request with
     \<open>verify=False\<close>, made only in the handler of \<open>SSLError\<close>\<close>
  "get_data first second =
     (case (case first of Raised x \<Rightarrow> Inl x | Response status body \<Rightarrow> read_response status body) of
        Inr data \<Rightarrow> Inr data
      | Inl x \<Rightarrow>
          if x = SSLError then
            (case second of
               Raised y \<Rightarrow> Inl y
             | Response status body \<Rightarrow> read_response status body)
          else Inr [])"

section \<open>utils/stock_list.py: the prefilter\<close>

type_synonym candidate = "string \<times> string"

record quote_info =
  price :: "real option"
  vol :: int
  avgvol3m :: int
  avgvol10d :: int

text \<open>
  The two price lookups of \<open>modules/fetch_price.py\<close> and the universe are the inputs of
  the prefilter. \<open>get_quote_batch ids suffix\<close> is the call with \<open>timeout=6\<close> and
  \<open>batch_size=80\<close>; \<open>get_latest_close_fast sid (Some suffix)\<close> is the call with
  \<open>prefer_suffix\<close> and \<open>timeout\<close>, \<open>get_latest_close_fast sid None\<close> the call with the id
  alone that the source makes after a \<open>TypeError\<close>; \<open>get_all_stocks\<close> is the universe
  fetched when no list is passed. A quote is the dict that \<open>get_quote_batch\<close> builds, so
  it is never empty and its price is a float or \<open>None\<close>. The argument \<open>debug\<close> only
  prints and is left out.
\<close>

record quote_source =
  get_quote_batch :: "string list \<Rightarrow> string \<Rightarrow> py_exn + (string \<rightharpoonup> quote_info)"
  get_latest_close_fast :: "string \<Rightarrow> string option \<Rightarrow> py_exn + real option"
  get_all_stocks :: "candidate list"

definition isdigit :: "string \<Rightarrow> bool" where
  \<comment> \<open>\<open>str.isdigit\<close> on ASCII text: not empty, and decimal digits only\<close>
  "isdigit s = (s \<noteq> [] \<and> (\<forall>c \<in> set s. c \<in> set ''0123456789''))"

definition py_take :: "int \<Rightarrow> 'a list \<Rightarrow> 'a list" where
  \<comment> \<open>the slice \<open>xs[:t]\<close>; a negative \<open>t\<close> counts from the end\<close>
  "py_take t xs = (if 0 \<le> t then take (nat t) xs else take (length xs - nat (- t)) xs)"

definition price_below :: "(string \<rightharpoonup> quote_info) \<Rightarrow> real \<Rightarrow> string \<Rightarrow> bool" where
  \<comment> \<open>\<open>info and info.get("price") is not None and float(info["price"]) < max_price\<close>\<close>
  "price_below price_map max_price sid =
     (case price_map sid of
        None \<Rightarrow> False
      | Some info \<Rightarrow> (case price info of None \<Rightarrow> False | Some p \<Rightarrow> p < max_price))"

fun batch_walk ::
  "(string \<rightharpoonup> quote_info) \<Rightarrow> real \<Rightarrow> int \<Rightarrow> candidate list \<Rightarrow> candidate list
    \<Rightarrow> candidate list" where
  \<comment> \<open>the loop over \<open>cand\<close> of the batched tier, with its \<open>break\<close>\<close>
  "batch_walk price_map max_price target [] filtered = filtered"
| "batch_walk price_map max_price target (c # cs) filtered =
     (let filtered' = (if price_below price_map max_price (fst c) then filtered @ [c]
                       else filtered)
      in if int (length filtered') \<ge> target then filtered'
         else batch_walk price_map max_price target cs filtered')"

definition batched_tier ::
  "quote_source \<Rightarrow> candidate list \<Rightarrow> real \<Rightarrow> int \<Rightarrow> py_exn + candidate list" where
  \<comment> \<open>the body of the first \<open>try\<close> up to the list \<open>filtered\<close>\<close>
  "batched_tier src cand max_price target =
     (case get_quote_batch src (map fst cand) ''.TW'' of
        Inl x \<Rightarrow> Inl x
      | Inr batch_tw \<Rightarrow>
          let missing = filter (\<lambda>sid. batch_tw sid = None) (map fst cand)
          in (case (if missing \<noteq> [] then get_quote_batch src missing ''.TWO''
                    else Inr Map.empty) of
                Inl x \<Rightarrow> Inl x
              | Inr batch_two \<Rightarrow>
                  Inr (batch_walk (batch_tw ++ batch_two) max_price target cand [])))"

definition probe :: "quote_source \<Rightarrow> string \<Rightarrow> py_exn + real option" where
  \<comment> \<open>the price lookup of the serial tier, with its \<open>except TypeError\<close>\<close>
  "probe src sid =
     (case (case get_latest_close_fast src sid (Some ''.TW'') of
              Inl x \<Rightarrow> Inl x
            | Inr None \<Rightarrow> get_latest_close_fast src sid (Some ''.TWO'')
            | Inr (Some p) \<Rightarrow> Inr (Some p)) of
        Inl x \<Rightarrow> if x = TypeError then get_latest_close_fast src sid None else Inl x
      | Inr p \<Rightarrow> Inr p)"

fun serial_walk ::
  "quote_source \<Rightarrow> real \<Rightarrow> int \<Rightarrow> int \<Rightarrow> candidate list \<Rightarrow> candidate list \<Rightarrow> int
    \<Rightarrow> py_exn + candidate list" where
  \<comment> \<open>the loop of the serial tier; an exception other than the \<open>TypeError\<close> of the first
     lookups leaves the function\<close>
  "serial_walk src max_price target max_checks [] filtered checks = Inr filtered"
| "serial_walk src max_price target max_checks (c # cs) filtered checks =
     (case probe src (fst c) of
        Inl x \<Rightarrow> Inl x
      | Inr p \<Rightarrow>
          let filtered' = (case p of
                             None \<Rightarrow> filtered
                           | Some v \<Rightarrow> if v < max_price then filtered @ [c] else filtered);
              checks' = checks + 1
          in if int (length filtered') \<ge> target \<or> checks' \<ge> max_checks then Inr filtered'
             else serial_walk src max_price target max_checks cs filtered' checks')"

definition get_stocks_under_1500 ::
  "quote_source \<Rightarrow> candidate list option \<Rightarrow> real \<Rightarrow> int option \<Rightarrow> int
    \<Rightarrow> py_exn + candidate list" where
  "get_stocks_under_1500 src stock_list max_price limit max_checks =
     (let stocks = (case stock_list of None \<Rightarrow> get_all_stocks src | Some l \<Rightarrow> l)
      in if stocks = [] then Inr []
         else
           let cand = filter (\<lambda>c. isdigit (fst c)) stocks;
               target = (case limit of
                           None \<Rightarrow> int (length cand)
                         | Some l \<Rightarrow> if l = 0 then int (length cand) else l)
           in (case (case batched_tier src cand max_price target of
                       Inl x \<Rightarrow> None
                     | Inr filtered \<Rightarrow>
                         if filtered \<noteq> [] then Some (py_take target filtered) else None) of
                 Some result \<Rightarrow> Inr result
               | None \<Rightarrow>
                   (case serial_walk src max_price target max_checks cand [] 0 of
                      Inl x \<Rightarrow> Inl x
                    | Inr filtered \<Rightarrow>
                        if filtered \<noteq> [] then Inr (py_take target filtered)
                        else Inr (py_take target cand))))"

section \<open>Reaching the notification step\<close>

text \<open>
  An evaluation reaches step 5 of \<open>process_stock\<close> when the quota pre-check passes, the
  history has at least 20 rows, no collaborator raises and some strategy triggered.
\<close>

definition reaches_notify :: "config \<Rightarrow> env \<Rightarrow> string \<Rightarrow> world \<Rightarrow> bool" where
  "reaches_notify cfg e stock_id w =
     (sent_count (sent_today w) stock_id < MAX_SIGNAL_PER_STOCK cfg
      \<and> sent_total (sent_today w) < MAX_SIGNAL_TOTAL cfg
      \<and> (case price_result e of Inl x \<Rightarrow> False | Inr d \<Rightarrow> \<not> history_abort d)
      \<and> (case fund_result e of Inl x \<Rightarrow> False | Inr f \<Rightarrow> True)
      \<and> (case linked_result e of
            Inl x \<Rightarrow> False
          | Inr linked \<Rightarrow>
              linked = [] \<or> (case ranked_result e of Inl x \<Rightarrow> False | Inr r \<Rightarrow> True))
      \<and> (case router_result e of
            Inl x \<Rightarrow> False
          | Inr strategies \<Rightarrow> filter triggered strategies \<noteq> []))"

section \<open>Worked inputs\<close>

text \<open>
  A history as \<open>_normalize_price_df\<close> derives it (rolling means over 5 and 20 rows, from
  the first row on): fifteen closes of 10, then five closes of 9, at a volume of 100; and
  a further day with a close of 20 at a volume of 1900/9. On that day the fast average
  (56/5) is above the slow one (41/4) after being below it (9 against 39/4), the volume
  is twice its average (950/9), and the close is above the 20 closes before it.
\<close>

definition ex_rows_20 :: "row list" where
  "ex_rows_20 =
     [\<lparr>close = 10, volume = 100, MA5 = 10, MA20 = 10, Volume_avg = 100\<rparr>,
      \<lparr>close = 10, volume = 100, MA5 = 10, MA20 = 10, Volume_avg = 100\<rparr>,
      \<lparr>close = 10, volume = 100, MA5 = 10, MA20 = 10, Volume_avg = 100\<rparr>,
      \<lparr>close = 10, volume = 100, MA5 = 10, MA20 = 10, Volume_avg = 100\<rparr>,
      \<lparr>close = 10, volume = 100, MA5 = 10, MA20 = 10, Volume_avg = 100\<rparr>,
      \<lparr>close = 10, volume = 100, MA5 = 10, MA20 = 10, Volume_avg = 100\<rparr>,
      \<lparr>close = 10, volume = 100, MA5 = 10, MA20 = 10, Volume_avg = 100\<rparr>,
      \<lparr>close = 10, volume = 100, MA5 = 10, MA20 = 10, Volume_avg = 100\<rparr>,
      \<lparr>close = 10, volume = 100, MA5 = 10, MA20 = 10, Volume_avg = 100\<rparr>,
      \<lparr>close = 10, volume = 100, MA5 = 10, MA20 = 10, Volume_avg = 100\<rparr>,
      \<lparr>close = 10, volume = 100, MA5 = 10, MA20 = 10, Volume_avg = 100\<rparr>,
      \<lparr>close = 10, volume = 100, MA5 = 10, MA20 = 10, Volume_avg = 100\<rparr>,
      \<lparr>close = 10, volume = 100, MA5 = 10, MA20 = 10, Volume_avg = 100\<rparr>,
      \<lparr>close = 10, volume = 100, MA5 = 10, MA20 = 10, Volume_avg = 100\<rparr>,
      \<lparr>close = 10, volume = 100, MA5 = 10, MA20 = 10, Volume_avg = 100\<rparr>,
      \<lparr>close = 9, volume = 100, MA5 = 49 / 5, MA20 = 159 / 16, Volume_avg = 100\<rparr>,
      \<lparr>close = 9, volume = 100, MA5 = 48 / 5, MA20 = 168 / 17, Volume_avg = 100\<rparr>,
      \<lparr>close = 9, volume = 100, MA5 = 47 / 5, MA20 = 59 / 6, Volume_avg = 100\<rparr>,
      \<lparr>close = 9, volume = 100, MA5 = 46 / 5, MA20 = 186 / 19, Volume_avg = 100\<rparr>,
      \<lparr>close = 9, volume = 100, MA5 = 9, MA20 = 39 / 4, Volume_avg = 100\<rparr>]"

definition ex_day_21 :: row where
  "ex_day_21 =
     \<lparr>close = 20, volume = 1900 / 9, MA5 = 56 / 5, MA20 = 41 / 4, Volume_avg = 950 / 9\<rparr>"

definition ex_history_20 :: price_df where
  "ex_history_20 = \<lparr>rows = ex_rows_20, vol_columns = True\<rparr>"

definition ex_history_21 :: price_df where
  "ex_history_21 = \<lparr>rows = ex_rows_20 @ [ex_day_21], vol_columns = True\<rparr>"

text \<open>
  Stand-ins for the two library functions, a configuration with a webhook, and an
  evaluation in which the technical strategy triggered and every collaborator answered.
\<close>

definition ex_lib :: pylib where
  "ex_lib = \<lparr>sha256_hex = (\<lambda>m. m), format_2f = (\<lambda>x. ''20.00'')\<rparr>"

definition ex_cfg_hook :: config where
  "ex_cfg_hook = default_config\<lparr>DISCORD_WEBHOOK := ''https://discord.example/hook''\<rparr>"

definition ex_results :: "strategy_result list" where
  "ex_results =
     [\<lparr>strategy = ''technical'', triggered = True, reason = ''cross'', advice = None\<rparr>,
      \<lparr>strategy = ''fundamental'', triggered = False, reason = ''no data'', advice = None\<rparr>,
      \<lparr>strategy = ''news'', triggered = False, reason = ''no news'', advice = None\<rparr>]"

definition ex_env :: env where
  "ex_env =
     \<lparr>clock = 1793000000, post_result = PostStatus 204,
      price_result = Inr (Some ex_history_21), fund_result = Inr None,
      linked_result = Inr [], ranked_result = Inr [], router_result = Inr ex_results,
      log_result = None, log_time = ''2026-11-04 09:00:00''\<rparr>"


definition ex_world_capped :: world where
  \<comment> \<open>the candidate 2330 has used its quota\<close>
  "ex_world_capped = initial_world\<lparr>sent_today := [(''2330'', 20)]\<rparr>"









text \<open>
  A universe with one code that is not numeric, a batched price map, and four price
  sources: one whose batched quote prices the only candidate above the ceiling, one whose
  batched lookups return no quote at all without raising, and one where every lookup
  fails.
\<close>

definition ex_quote :: "real \<Rightarrow> quote_info" where
  "ex_quote p = \<lparr>price = Some p, vol = 1000, avgvol3m = 1000, avgvol10d = 1000\<rparr>"

definition ex_universe :: "candidate list" where
  "ex_universe = [(''2330'', ''TSMC''), (''00632R'', ''ETF''), (''2317'', ''HonHai''),
                  (''2454'', ''MediaTek'')]"

definition ex_price_map :: "string \<rightharpoonup> quote_info" where
  "ex_price_map = [''2330'' \<mapsto> ex_quote 2000, ''2317'' \<mapsto> ex_quote 100,
                   ''2454'' \<mapsto> ex_quote 900]"

definition ex_src_priced_out :: quote_source where
  "ex_src_priced_out =
     \<lparr>get_quote_batch = (\<lambda>ids suffix.
          Inr (if suffix = ''.TW'' then [''2330'' \<mapsto> ex_quote 2000] else Map.empty)),
      get_latest_close_fast = (\<lambda>sid suffix. Inr (if sid = ''2330'' then Some 2000 else None)),
      get_all_stocks = []\<rparr>"

definition ex_src_quiet_batch :: quote_source where
  "ex_src_quiet_batch =
     \<lparr>get_quote_batch = (\<lambda>ids suffix. Inr Map.empty),
      get_latest_close_fast = (\<lambda>sid suffix.
          Inr (if sid = ''2330'' then Some 2000 else if sid = ''2317'' then Some 100 else None)),
      get_all_stocks = []\<rparr>"


section \<open>Unfolding the model on the worked inputs\<close>

lemmas ex_defs = ex_lib_def ex_rows_20_def ex_day_21_def ex_history_20_def
  ex_history_21_def ex_results_def ex_cfg_hook_def ex_env_def default_config_def
  initial_world_def

lemmas run_defs = process_stock_def notify_and_record_def safe_send_def
  send_discord_message_def deliver_def sent_count_def sent_total_def history_abort_def
  dedup_first_def py_or_def last_sent_def pipeline_error_def Let_def


lemmas walk_defs = isdigit_def py_take_def price_below_def ex_quote_def ex_universe_def
  ex_price_map_def Let_def

lemmas prefilter_defs = get_stocks_under_1500_def batched_tier_def probe_def
  ex_src_priced_out_def ex_src_quiet_batch_def

section \<open>Properties of the technical strategy\<close>


text \<open>
  The reason string of the technical strategy determines the three truth values it
  prints.
\<close>

lemma technical_reason_tells:
  "(if a \<and> b \<and> c then txt_triggered_prefix else txt_not_triggered_prefix)
     @ str_nat (bool_count [a, b, c]) @ txt_golden @ str_bool a
     @ txt_volume @ str_bool b @ txt_breakout @ str_bool c
   = (if a' \<and> b' \<and> c' then txt_triggered_prefix else txt_not_triggered_prefix)
     @ str_nat (bool_count [a', b', c']) @ txt_golden @ str_bool a'
     @ txt_volume @ str_bool b' @ txt_breakout @ str_bool c'
   \<Longrightarrow> a = a' \<and> b = b' \<and> c = c'"
  by (cases a; cases b; cases c; cases a'; cases b'; cases c';
      simp add: txt_triggered_prefix_def txt_not_triggered_prefix_def txt_golden_def
        txt_volume_def txt_breakout_def str_bool_def bool_count_def str_nat.simps
        digit_char_def)



text \<open>
  Without the volume columns the source leaves \<open>vol_ok\<close> at \<open>True\<close>: the strategy then
  triggers on the crossover and the breakout alone.
\<close>

lemma strategy_technical_without_volume:
  assumes "21 \<le> length (rows df)" and "\<not> vol_columns df"
  shows "triggered (strategy_technical (Some df)) \<longleftrightarrow>
           (MA5 (rows df ! (length (rows df) - 2)) < MA20 (rows df ! (length (rows df) - 2))
            \<and> MA20 (last (rows df)) < MA5 (last (rows df)))
           \<and> series_max (iloc_m21_m1 (map close (rows df))) < close (last (rows df))"
  using assms by (simp add: strategy_technical_def Let_def)

text \<open>
  C10. A history of exactly 20 rows passes the history check of \<open>process_stock\<close>, which
  aborts only below 20 rows, but \<open>strategy_technical\<close> answers it with
  \<open>triggered = False\<close> and the insufficient-data reason; whenever the technical strategy
  triggers, its input has at least 21 rows.
\<close>

theorem technical_needs_21:
  "(length (rows df) = 20 \<longrightarrow>
      \<not> history_abort (Some df)
      \<and> strategy_technical (Some df) =
          \<lparr>strategy = txt_technical, triggered = False, reason = txt_insufficient,
           advice = None\<rparr>)
   \<and> (triggered (strategy_technical d) \<longrightarrow> (\<exists>df'. d = Some df' \<and> 21 \<le> length (rows df')))"
  by (auto simp: strategy_technical_def history_abort_def Let_def
      split: option.splits if_splits)

theorem technical_needs_21_witness:
  "length (rows ex_history_20) = 20
   \<and> \<not> history_abort (Some ex_history_20)
   \<and> \<not> triggered (strategy_technical (Some ex_history_20))
   \<and> reason (strategy_technical (Some ex_history_20)) = txt_insufficient
   \<and> triggered (strategy_technical (Some ex_history_21))
   \<and> 21 \<le> length (rows ex_history_21)"
proof -
  have l: "length (rows ex_history_20) = 20"
    by (simp add: ex_history_20_def ex_rows_20_def)
  have tr: "triggered (strategy_technical (Some ex_history_21))"
    by (simp add: strategy_technical_def ex_history_21_def ex_rows_20_def ex_day_21_def
        nth_append iloc_m21_m1_def series_max_def Let_def)
  show ?thesis
    using l tr technical_needs_21 [of ex_history_20 "Some ex_history_21"] by auto
qed

section \<open>Properties of the quota ledger\<close>

lemma sent_total_update:
  "sent_total (AList.update k v d) = sent_total d - sent_count d k + v"
  by (induction d) (auto simp: sent_total_def sent_count_def)

lemma sent_count_update:
  "sent_count (AList.update k v d) k' = (if k' = k then v else sent_count d k')"
  by (simp add: sent_count_def update_conv')

lemma sent_today_deliver [simp]: "sent_today (deliver cfg e m u w) = sent_today w"
  by (simp add: deliver_def split: option.splits post_outcome.splits)

lemma sent_today_send [simp]:
  "sent_today (send_discord_message lib cfg e m u w) = sent_today w"
  by (simp add: send_discord_message_def Let_def)

lemma sent_today_safe_send [simp]: "sent_today (safe_send lib cfg e m w) = sent_today w"
  by (simp add: safe_send_def Let_def)

lemma signals_deliver [simp]: "signals (deliver cfg e m u w) = signals w"
  by (simp add: deliver_def split: option.splits post_outcome.splits)

lemma signals_send [simp]: "signals (send_discord_message lib cfg e m u w) = signals w"
  by (simp add: send_discord_message_def Let_def)

lemma signals_safe_send [simp]: "signals (safe_send lib cfg e m w) = signals w"
  by (simp add: safe_send_def Let_def)

lemma seen_deliver [simp]: "seen (deliver cfg e m u w) = seen w"
  by (simp add: deliver_def split: option.splits post_outcome.splits)

lemma sent_today_notify_and_record:
  "sent_today (notify_and_record lib cfg e sid nm count df triggers w) =
     (if log_result e = None then AList.update sid (count + 1) (sent_today w)
      else sent_today w)"
  by (simp add: notify_and_record_def Let_def pipeline_error_def split: option.splits)

lemma sent_today_process_stock:
  "sent_today (process_stock lib cfg e sid nm w) =
     (if reaches_notify cfg e sid w \<and> log_result e = None
      then AList.update sid (sent_count (sent_today w) sid + 1) (sent_today w)
      else sent_today w)"
  by (auto simp: process_stock_def reaches_notify_def Let_def pipeline_error_def
        sent_today_notify_and_record history_abort_def
      split: sum.splits option.splits if_splits)

lemma quota_step:
  assumes "\<forall>k. sent_count (sent_today w) k \<le> MAX_SIGNAL_PER_STOCK cfg"
      and "sent_total (sent_today w) \<le> MAX_SIGNAL_TOTAL cfg"
  shows "(\<forall>k. sent_count (sent_today (process_stock lib cfg e sid nm w)) k
              \<le> MAX_SIGNAL_PER_STOCK cfg)
       \<and> sent_total (sent_today (process_stock lib cfg e sid nm w)) \<le> MAX_SIGNAL_TOTAL cfg"
proof (cases "reaches_notify cfg e sid w \<and> log_result e = None")
  case False
  then have "sent_today (process_stock lib cfg e sid nm w) = sent_today w"
    by (auto simp: sent_today_process_stock)
  with assms show ?thesis
    by simp
next
  case True
  then have upd: "sent_today (process_stock lib cfg e sid nm w) =
      AList.update sid (sent_count (sent_today w) sid + 1) (sent_today w)"
    by (simp add: sent_today_process_stock)
  from True have c: "sent_count (sent_today w) sid < MAX_SIGNAL_PER_STOCK cfg"
    and t: "sent_total (sent_today w) < MAX_SIGNAL_TOTAL cfg"
    by (simp_all add: reaches_notify_def)
  show ?thesis
    using assms c t by (simp add: upd sent_count_update sent_total_update)
qed

lemma quota_run:
  assumes "\<forall>k. sent_count (sent_today w) k \<le> MAX_SIGNAL_PER_STOCK cfg"
      and "sent_total (sent_today w) \<le> MAX_SIGNAL_TOTAL cfg"
  shows "(\<forall>k. sent_count (sent_today (run_calls lib cfg calls w)) k
              \<le> MAX_SIGNAL_PER_STOCK cfg)
       \<and> sent_total (sent_today (run_calls lib cfg calls w)) \<le> MAX_SIGNAL_TOTAL cfg"
  using assms
proof (induction calls arbitrary: w)
  case Nil
  then show ?case
    by (simp add: run_calls_def)
next
  case (Cons c calls)
  obtain e sid nm where c: "c = (e, sid, nm)"
    by (cases c) auto
  have step: "run_calls lib cfg (c # calls) w =
      run_calls lib cfg calls (process_stock lib cfg e sid nm w)"
    by (simp add: run_calls_def c)
  show ?case
    unfolding step using quota_step [OF Cons.prems] Cons.IH by blast
qed

lemma sent_today_keys_distinct:
  "distinct (map fst (sent_today w))
   \<Longrightarrow> distinct (map fst (sent_today (run_calls lib cfg calls w)))"
proof (induction calls arbitrary: w)
  case Nil
  then show ?case
    by (simp add: run_calls_def)
next
  case (Cons c calls)
  obtain e sid nm where c: "c = (e, sid, nm)"
    by (cases c) auto
  have "distinct (map fst (sent_today (process_stock lib cfg e sid nm w)))"
    using Cons.prems by (simp add: sent_today_process_stock distinct_update)
  from Cons.IH [OF this] show ?case
    by (simp add: run_calls_def c)
qed

lemma quota_gate:
  "MAX_SIGNAL_PER_STOCK cfg \<le> sent_count (sent_today w) sid
    \<or> MAX_SIGNAL_TOTAL cfg \<le> sent_total (sent_today w)
   \<Longrightarrow> process_stock lib cfg e sid nm w = w"
  by (auto simp: process_stock_def Let_def)

text \<open>
  C1. With caps that are not negative, after any sequence of calls of \<open>process_stock\<close>
  from the start of the process every candidate's count is at most
  \<open>MAX_SIGNAL_PER_STOCK\<close> and the sum of the counts is at most \<open>MAX_SIGNAL_TOTAL\<close>. A call
  for a candidate whose count has reached \<open>MAX_SIGNAL_PER_STOCK\<close>, or made when the sum
  has reached \<open>MAX_SIGNAL_TOTAL\<close>, leaves the whole state as it was: nothing printed or
  posted, no log row, no counter changed.
\<close>

theorem quota_invariant:
  assumes "0 \<le> MAX_SIGNAL_PER_STOCK cfg" and "0 \<le> MAX_SIGNAL_TOTAL cfg"
  shows "(\<forall>stock_id. sent_count (sent_today (run_calls lib cfg calls initial_world)) stock_id
            \<le> MAX_SIGNAL_PER_STOCK cfg)
       \<and> sent_total (sent_today (run_calls lib cfg calls initial_world))
            \<le> MAX_SIGNAL_TOTAL cfg
       \<and> (MAX_SIGNAL_PER_STOCK cfg \<le> sent_count (sent_today w) stock_id
            \<or> MAX_SIGNAL_TOTAL cfg \<le> sent_total (sent_today w)
          \<longrightarrow> process_stock lib cfg e stock_id stock_name w = w)"
proof -
  have "\<forall>k. sent_count (sent_today initial_world) k \<le> MAX_SIGNAL_PER_STOCK cfg"
    using assms(1) by (simp add: initial_world_def sent_count_def)
  moreover have "sent_total (sent_today initial_world) \<le> MAX_SIGNAL_TOTAL cfg"
    using assms(2) by (simp add: initial_world_def sent_total_def)
  ultimately show ?thesis
    using quota_run [of initial_world cfg lib calls]
      quota_gate [of cfg w stock_id lib e stock_name]
    by blast
qed

theorem quota_invariant_witness:
  "0 \<le> MAX_SIGNAL_PER_STOCK ex_cfg_hook \<and> 0 \<le> MAX_SIGNAL_TOTAL ex_cfg_hook
   \<and> sent_today (run_calls ex_lib ex_cfg_hook [(ex_env, ''2330'', ''TSMC'')] initial_world)
       = [(''2330'', 1)]
   \<and> sent_total
       (sent_today (run_calls ex_lib ex_cfg_hook [(ex_env, ''2330'', ''TSMC'')] initial_world))
       \<le> MAX_SIGNAL_TOTAL ex_cfg_hook
   \<and> MAX_SIGNAL_PER_STOCK ex_cfg_hook \<le> sent_count (sent_today ex_world_capped) ''2330''
   \<and> process_stock ex_lib ex_cfg_hook ex_env ''2330'' ''TSMC'' ex_world_capped
       = ex_world_capped"
  using quota_invariant [of ex_cfg_hook ex_lib "[(ex_env, ''2330'', ''TSMC'')]"
      ex_world_capped "''2330''" ex_env "''TSMC''"]
  by (simp add: ex_defs run_defs run_calls_def ex_world_capped_def)

section \<open>Properties of the notifier\<close>



text \<open>
  A message that has no entry is compared with the timestamp 0.0, so a first send made
  while the clock reads less than the window is suppressed as well.
\<close>

lemma send_without_entry_early:
  "map_of (seen w) (sha256_hex lib m) = None
   \<Longrightarrow> clock e < real_of_int (DEDUP_WINDOW_SEC cfg)
   \<Longrightarrow> send_discord_message lib cfg e m u w = w"
  by (simp add: send_discord_message_def last_sent_def Let_def)




section \<open>The counter and the delivery\<close>






text \<open>
  The router as \<open>main.py\<close> calls it. \<open>process_stock\<close> passes \<open>pos_threshold=0.80\<close>, so
  the router's call of \<open>strategy_news\<close> gives that keyword twice and raises
  \<open>TypeError\<close>; \<open>process_stock\<close> catches it and prints the error. In the repository as it
  stands every evaluation that gets as far as the router therefore ends there, and the
  statements above about the notification step describe the body of \<open>process_stock\<close>
  for a router that returns.
\<close>

lemma run_all_strategies_duplicate_keyword:
  "run_all_strategies df fundamental news [''pos_threshold''] = Inl TypeError"
  by (simp add: run_all_strategies_def)

lemma process_stock_router_raises:
  "router_result e = Inl x \<Longrightarrow> sent_today (process_stock lib cfg e sid nm w) = sent_today w
     \<and> signals (process_stock lib cfg e sid nm w) = signals w
     \<and> delivered (process_stock lib cfg e sid nm w) = delivered w
     \<and> seen (process_stock lib cfg e sid nm w) = seen w"
  by (auto simp: process_stock_def pipeline_error_def Let_def split: sum.splits)

section \<open>Properties of the rate limiter\<close>

lemma min_interval_wait [simp]: "min_interval (wait rl now lag) = min_interval rl"
  by (simp add: wait_def)


lemma grants_length [simp]: "length (grants rl calls) = length calls"
  by (induction calls arbitrary: rl) auto






section \<open>Properties of the FinMind client\<close>

lemma get_data_no_ssl:
  "first \<noteq> Raised SSLError \<Longrightarrow> \<exists>data. get_data first second = Inr data"
  by (cases first) (auto simp: get_data_def read_response_def split: sum.splits json_body.splits option.splits)

lemma get_data_402:
  "get_data (Response 402 body) second = Inr []"
  "get_data (Raised SSLError) (Response 402 body) = Inr []"
  by (simp_all add: get_data_def read_response_def)

text \<open>
  C6 fails on the fallback path. When the verified request raises \<open>SSLError\<close>, the request
  with \<open>verify=False\<close> is made inside the \<open>except\<close> handler, outside the \<open>try\<close>: a 500
  answer there makes \<open>raise_for_status\<close> raise \<open>HTTPError\<close> to the caller, and a
  connection error of the retry reaches the caller as well. The same 500 answer on the
  first request is mapped to the empty list.
\<close>

theorem get_data_ssl_fallback_raises:
  "get_data (Raised SSLError) (Response 500 NotJson :: unit http_outcome) = Inl HTTPError
   \<and> get_data (Raised SSLError) (Raised ConnectionError :: unit http_outcome) = Inl ConnectionError
   \<and> get_data (Response 500 NotJson) (Response 500 NotJson :: unit http_outcome) = Inr []"
  by (simp add: get_data_def read_response_def)


section \<open>Properties of the prefilter\<close>

lemma batch_walk_shape:
  "\<exists>zs. batch_walk pm mp target cs acc = acc @ zs \<and> subseq zs cs
        \<and> (\<forall>c \<in> set zs. price_below pm mp (fst c))"
proof (induction cs arbitrary: acc)
  case Nil
  then show ?case by simp
next
  case (Cons c cs)
  show ?case
  proof (cases "price_below pm mp (fst c)")
    case True
    from Cons.IH [of "acc @ [c]"] obtain zs where
      zs: "batch_walk pm mp target cs (acc @ [c]) = (acc @ [c]) @ zs" "subseq zs cs"
        "\<forall>c \<in> set zs. price_below pm mp (fst c)"
      by blast
    show ?thesis
    proof (cases "int (length (acc @ [c])) \<ge> target")
      case stop: True
      have "batch_walk pm mp target (c # cs) acc = acc @ [c]"
        using True stop by simp
      moreover have "subseq [c] (c # cs)" by simp
      ultimately show ?thesis using True by fastforce
    next
      case go: False
      have "batch_walk pm mp target (c # cs) acc = acc @ (c # zs)"
        using True go zs(1) by simp
      moreover have "subseq (c # zs) (c # cs)" using zs(2) by simp
      ultimately show ?thesis using True zs(3) by fastforce
    qed
  next
    case False
    from Cons.IH [of acc] obtain zs where
      zs: "batch_walk pm mp target cs acc = acc @ zs" "subseq zs cs"
        "\<forall>c \<in> set zs. price_below pm mp (fst c)"
      by blast
    show ?thesis
    proof (cases "int (length acc) \<ge> target")
      case stop: True
      have "batch_walk pm mp target (c # cs) acc = acc @ []"
        using False stop by simp
      then show ?thesis by fastforce
    next
      case go: False
      have "batch_walk pm mp target (c # cs) acc = acc @ zs"
        using False go zs(1) by simp
      moreover have "subseq zs (c # cs)" using zs(2) by (rule list_emb_Cons)
      ultimately show ?thesis using zs(3) by blast
    qed
  qed
qed

lemma batch_walk_length:
  "int (length acc) < target \<Longrightarrow> int (length (batch_walk pm mp target cs acc)) \<le> target"
proof (induction cs arbitrary: acc)
  case Nil
  then show ?case by simp
next
  case (Cons c cs)
  show ?case
    using Cons.prems Cons.IH [of "acc @ [c]"] Cons.IH [of acc]
    by (auto simp: Let_def)
qed

lemma price_below_known:
  "price_below pm mp sid \<longleftrightarrow> (\<exists>info p. pm sid = Some info \<and> price info = Some p \<and> p < mp)"
  by (auto simp: price_below_def split: option.splits)

text \<open>
  C4. For every candidate list, every positive limit and every price map, the list that
  the batched tier keeps is a subsequence of the input in the input's order, has at most
  \<open>limit\<close> elements, and holds only candidates whose price in the map is known and below
  \<open>max_price\<close>; the final slice \<open>filtered[:target]\<close> changes nothing.
\<close>

theorem batched_tier_output:
  fixes stock_list :: "candidate list" and price_map :: "string \<rightharpoonup> quote_info"
    and max_price :: real and limit :: int
  defines "cand \<equiv> filter (\<lambda>c. isdigit (fst c)) stock_list"
  defines "out \<equiv> py_take limit (batch_walk price_map max_price limit cand [])"
  assumes "0 < limit"
  shows "subseq out stock_list
       \<and> int (length out) \<le> limit
       \<and> (\<forall>c \<in> set out. \<exists>info p. price_map (fst c) = Some info \<and> price info = Some p
                                   \<and> p < max_price)
       \<and> out = batch_walk price_map max_price limit cand []"
proof -
  obtain zs where zs: "batch_walk price_map max_price limit cand [] = zs" "subseq zs cand"
      "\<forall>c \<in> set zs. price_below price_map max_price (fst c)"
    using batch_walk_shape [of price_map max_price limit cand "[]"] by auto
  have len: "int (length zs) \<le> limit"
    using batch_walk_length [of "[]" limit price_map max_price cand] assms(3) zs(1) by simp
  then have out: "out = zs"
    using assms(3) by (simp add: out_def zs(1) py_take_def)
  have "subseq cand stock_list"
    by (simp add: cand_def)
  with zs(2) have "subseq zs stock_list"
    by (rule subseq_order.trans)
  then show ?thesis
    using out len zs(1,3) by (simp add: price_below_known)
qed


theorem batched_tier_output_witness:
  "(0::int) < 1
   \<and> py_take 1 (batch_walk ex_price_map 1500 1 (filter (\<lambda>c. isdigit (fst c)) ex_universe) [])
       = [(''2317'', ''HonHai'')]
   \<and> subseq [(''2317'', ''HonHai'')] ex_universe
   \<and> (\<exists>info p. ex_price_map ''2317'' = Some info \<and> price info = Some p \<and> p < 1500)"
  using batched_tier_output [of 1 ex_price_map 1500 ex_universe]
  by (simp add: walk_defs)

lemma get_stocks_batched_return:
  assumes "batched_tier src (filter (\<lambda>c. isdigit (fst c)) stock_list) max_price limit = Inr filtered"
      and "filtered \<noteq> []" and "limit \<noteq> 0"
  shows "get_stocks_under_1500 src (Some stock_list) max_price (Some limit) max_checks
           = Inr (py_take limit filtered)"
proof -
  have "stock_list \<noteq> []"
    using assms(1,2) by (auto simp: batched_tier_def split: sum.splits if_splits)
  then show ?thesis
    using assms by (simp add: get_stocks_under_1500_def Let_def)
qed

text \<open>
  C3 fails when the batched tier keeps nothing. The source's comment says the function
  returns the empty list there, but no \<open>return\<close> follows it, and the serial tier and the
  passthrough run. With a batched quote of 2000 for the only candidate the function
  returns that candidate through the passthrough; with batched lookups that return no
  quote and do not raise, it returns the candidate that the serial lookups price below
  the ceiling.
\<close>

theorem prefilter_falls_through:
  "batched_tier ex_src_priced_out [(''2330'', ''TSMC'')] 1500 1 = Inr []
   \<and> get_stocks_under_1500 ex_src_priced_out (Some [(''2330'', ''TSMC'')]) 1500 (Some 1) 300
       = Inr [(''2330'', ''TSMC'')]
   \<and> batched_tier ex_src_quiet_batch [(''2330'', ''TSMC''), (''2317'', ''HonHai'')] 1500 1 = Inr []
   \<and> get_stocks_under_1500 ex_src_quiet_batch (Some [(''2330'', ''TSMC''), (''2317'', ''HonHai'')])
        1500 (Some 1) 300 = Inr [(''2317'', ''HonHai'')]"
  by (simp add: prefilter_defs walk_defs)





end
